theory Spec2Isabelle
  imports Complex_Main "HOL-Library.AList"
begin

section \<open>The PyMC3 back-end of bambi: data model\<close>

text \<open>
  The module \<^verbatim>\<open>bambi/backends/pymc.py\<close> is glue over a probabilistic-programming
  runtime. The runtime builds a symbolic graph: a distribution call creates a named random
  variable, arithmetic on variables creates expression nodes. The embedding keeps that
  graph as a term of the datatype \<open>pyval\<close>, and the model under construction as the list
  of the named variables registered so far, oldest first.
\<close>

datatype error =
    ValueError string
  | KeyError string
  | TypeError string
  | IndexError string
  | LinAlgError string
  | AttributeError string

text \<open>Numeric arrays of rank at most two; a matrix carries its column count (\<open>shape[1]\<close>).\<close>

datatype tensor = Scalar real | Vec "real list" | Mat nat "real list list"

text \<open>
  A distribution class of the runtime: an attribute of the \<open>pm\<close> module
  (\<open>getattr(pm, name)\<close>) or a bounded class made by \<open>pm.Bound(cls, lower=l)\<close>.
\<close>

datatype dist_class = PmAttr string | PmBound dist_class int

text \<open>The \<open>dist\<close> argument of \<open>_build_dist\<close>: a string, or already a class.\<close>

datatype dist_id = DistName string | DistObj dist_class

text \<open>The functions of the \<open>links\<close> table, and a caller-supplied callable.\<close>

datatype link_op = Identity | Sigmoid | Inv | InvSqrt | Exp | Callable string

datatype pyval =
    IntLit int
  | Const tensor
  | PriorV dist_id "(string \<times> pyval) list"
  | DistRV string dist_class "(string \<times> pyval) list"
  | Deterministic string pyval
  | Add pyval pyval
  | Mul pyval pyval
  | Dot pyval pyval
  | NewAxis pyval
  | Take pyval "int list"
  | Apply link_op pyval

type_synonym kwargs = "(string \<times> pyval) list"

type_synonym pm_model = "pyval list"

text \<open>
  What the source asks of the runtime while building distributions:
  \<open>hasattr(pm, name)\<close> and \<open>isinstance(v, pm.model.TransformedRV)\<close>.
\<close>

record runtime =
  pm_hasattr :: "string \<Rightarrow> bool"
  is_TransformedRV :: "pyval \<Rightarrow> bool"

section \<open>The distribution builder\<close>

text \<open>\<open>dists = {"HalfFlat": pm.Bound(pm.Flat, lower=0)}\<close>\<close>

definition dists :: "(string \<times> dist_class) list" where
  "dists = [(''HalfFlat'', PmBound (PmAttr ''Flat'') 0)]"

definition unknown_dist_msg :: "string \<Rightarrow> string" where
  "unknown_dist_msg name =
     ''The Distribution '' @ name @ '' was not found in PyMC3 or the PyMC3BackEnd.''"

text \<open>Lines 42--50 of \<open>_build_dist\<close>.\<close>

fun resolve_dist :: "runtime \<Rightarrow> dist_id \<Rightarrow> error + dist_class" where
  "resolve_dist rt (DistObj d) = Inr d"
| "resolve_dist rt (DistName name) =
     (if pm_hasattr rt name then Inr (PmAttr name)
      else (case map_of dists name of
              Some d \<Rightarrow> Inr d
            | None \<Rightarrow> Inl (ValueError (unknown_dist_msg name))))"

definition has_key :: "string \<Rightarrow> kwargs \<Rightarrow> bool" where
  "has_key k kw = (map_of kw k \<noteq> None)"

text \<open>The condition of the \<open>if\<close> at lines 62--67, on the expanded keyword arguments.\<close>

definition noncentered_trigger :: "runtime \<Rightarrow> bool \<Rightarrow> kwargs \<Rightarrow> bool" where
  "noncentered_trigger rt nc kw =
     (nc \<and> has_key ''sigma'' kw \<and> \<not> has_key ''observed'' kw \<and>
      (case map_of kw ''sigma'' of Some s \<Rightarrow> is_TransformedRV rt s | None \<Rightarrow> False))"

text \<open>
  \<open>pm.Normal(label + "_offset", mu=0, sigma=1, shape=s)\<close> and
  \<open>pm.Deterministic(label, _offset * old_sigma)\<close>.
\<close>

definition offset_rv :: "string \<Rightarrow> pyval \<Rightarrow> pyval" where
  "offset_rv label s =
     DistRV (label @ ''_offset'') (PmAttr ''Normal'')
       [(''mu'', IntLit 0), (''sigma'', IntLit 1), (''shape'', s)]"

definition noncentered_rv :: "string \<Rightarrow> pyval \<Rightarrow> pyval \<Rightarrow> pyval" where
  "noncentered_rv label s old_sigma = Deterministic label (Mul (offset_rv label s) old_sigma)"

text \<open>
  Lines 61--72, after the name is resolved and the arguments are expanded. The subscript
  \<open>kwargs["shape"]\<close> is evaluated before \<open>pm.Normal\<close> is called, so a missing key raises
  before any variable is registered.
\<close>

definition finish_dist ::
  "runtime \<Rightarrow> bool \<Rightarrow> string \<Rightarrow> dist_class \<Rightarrow> kwargs \<Rightarrow> pm_model \<Rightarrow> error + (pyval \<times> pm_model)"
where
  "finish_dist rt nc label d kw m =
     (if noncentered_trigger rt nc kw then
        (case map_of kw ''sigma'' of
           None \<Rightarrow> Inl (KeyError ''sigma'')
         | Some old_sigma \<Rightarrow>
             (case map_of kw ''shape'' of
                None \<Rightarrow> Inl (KeyError ''shape'')
              | Some s \<Rightarrow>
                  Inr (noncentered_rv label s old_sigma,
                       m @ [offset_rv label s, noncentered_rv label s old_sigma])))
      else Inr (DistRV label d kw, m @ [DistRV label d kw]))"

text \<open>
  \<open>_build_dist\<close>, its inner function \<open>_expand_args\<close>, and the dictionary comprehension
  of line 59 (\<open>expand_kwargs\<close>), which visits the arguments in insertion order. \<open>nc\<close> is
  \<open>spec.noncentered\<close>, the only field of \<open>spec\<close> the builder reads. Every call threads
  the model, since building a nested prior registers its variables.
\<close>

function build_dist ::
  "runtime \<Rightarrow> bool \<Rightarrow> string \<Rightarrow> dist_id \<Rightarrow> kwargs \<Rightarrow> pm_model \<Rightarrow> error + (pyval \<times> pm_model)"
and expand_args ::
  "runtime \<Rightarrow> bool \<Rightarrow> string \<Rightarrow> pyval \<Rightarrow> string \<Rightarrow> pm_model \<Rightarrow> error + (pyval \<times> pm_model)"
and expand_kwargs ::
  "runtime \<Rightarrow> bool \<Rightarrow> string \<Rightarrow> kwargs \<Rightarrow> pm_model \<Rightarrow> error + (kwargs \<times> pm_model)"
where
  "build_dist rt nc label dname kwargs m =
     (case resolve_dist rt dname of
        Inl e \<Rightarrow> Inl e
      | Inr d \<Rightarrow>
          (case expand_kwargs rt nc label kwargs m of
             Inl e \<Rightarrow> Inl e
           | Inr (kw, m1) \<Rightarrow> finish_dist rt nc label d kw m1))"
| "expand_args rt nc key val label m =
     (case val of
        PriorV name args \<Rightarrow> build_dist rt nc (label @ ''_'' @ key) name args m
      | _ \<Rightarrow> Inr (val, m))"
| "expand_kwargs rt nc label [] m = Inr ([], m)"
| "expand_kwargs rt nc label ((k, v) # rest) m =
     (case expand_args rt nc k v label m of
        Inl e \<Rightarrow> Inl e
      | Inr (v', m1) \<Rightarrow>
          (case expand_kwargs rt nc label rest m1 of
             Inl e \<Rightarrow> Inl e
           | Inr (kw, m2) \<Rightarrow> Inr ((k, v') # kw, m2)))"
  by pat_completeness auto

termination
  by (relation "measure (\<lambda>x. case x of
        Inl (rt, nc, label, dname, kwargs, m) \<Rightarrow> 2 * size_list (size_prod (\<lambda>_. 0) size) kwargs + 1
      | Inr (Inl (rt, nc, key, val, label, m)) \<Rightarrow> 2 * size val
      | Inr (Inr (rt, nc, label, kwargs, m)) \<Rightarrow> 2 * size_list (size_prod (\<lambda>_. 0) size) kwargs)")
    auto

section \<open>Values of graph expressions\<close>

text \<open>
  The linear predictor is a graph expression over the coefficient variables. Its value at
  a point (one array per free variable, given by name) follows the array rules of the
  runtime: broadcasting of element-wise operations, integer-array indexing where a
  negative index counts from the end, \<open>x[:, None]\<close>, and the dot product. Numbers are
  reals; rounding is not part of this model. Arrays of rank three and more are outside
  the type \<open>tensor\<close>, and the link functions are left uninterpreted.
\<close>

fun shape_of :: "tensor \<Rightarrow> nat list" where
  "shape_of (Scalar a) = []"
| "shape_of (Vec v) = [length v]"
| "shape_of (Mat c rows) = [length rows, c]"

text \<open>\<open>t.data.shape[1]\<close>\<close>

definition shape1 :: "tensor \<Rightarrow> error + nat" where
  "shape1 t = (case shape_of t of
                 _ # c # _ \<Rightarrow> Inr c
               | _ \<Rightarrow> Inl (IndexError ''tuple index out of range''))"

fun as_rows :: "tensor \<Rightarrow> real list list" where
  "as_rows (Scalar a) = [[a]]"
| "as_rows (Vec v) = [v]"
| "as_rows (Mat c rows) = rows"

fun ncols :: "tensor \<Rightarrow> nat" where
  "ncols (Scalar a) = 1"
| "ncols (Vec v) = length v"
| "ncols (Mat c rows) = c"

fun rank :: "tensor \<Rightarrow> nat" where
  "rank (Scalar a) = 0"
| "rank (Vec v) = 1"
| "rank (Mat c rows) = 2"

definition bdim :: "nat \<Rightarrow> nat \<Rightarrow> nat option" where
  "bdim a b = (if a = b then Some a else if a = 1 then Some b else if b = 1 then Some a else None)"

definition stretch :: "nat \<Rightarrow> 'a list \<Rightarrow> 'a list" where
  "stretch n xs = (if length xs = n then xs else replicate n (hd xs))"

definition of_rows :: "nat \<Rightarrow> nat \<Rightarrow> real list list \<Rightarrow> tensor" where
  "of_rows r c rows =
     (if r = 0 then Scalar (hd (hd rows)) else if r = 1 then Vec (hd rows) else Mat c rows)"

definition broadcast :: "(real \<Rightarrow> real \<Rightarrow> real) \<Rightarrow> tensor \<Rightarrow> tensor \<Rightarrow> error + tensor" where
  "broadcast f s t =
     (case (bdim (length (as_rows s)) (length (as_rows t)), bdim (ncols s) (ncols t)) of
        (Some r, Some c) \<Rightarrow>
          Inr (of_rows (max (rank s) (rank t)) c
                 (map2 (map2 f) (stretch r (map (stretch c) (as_rows s)))
                                (stretch r (map (stretch c) (as_rows t)))))
      | _ \<Rightarrow> Inl (ValueError ''operands could not be broadcast together''))"

definition py_index :: "'a list \<Rightarrow> int \<Rightarrow> error + 'a" where
  "py_index xs i =
     (if 0 \<le> i \<and> i < int (length xs) then Inr (xs ! nat i)
      else if i < 0 \<and> - int (length xs) \<le> i then Inr (xs ! nat (i + int (length xs)))
      else Inl (IndexError ''index is out of bounds''))"

fun gather :: "'a list \<Rightarrow> int list \<Rightarrow> error + 'a list" where
  "gather xs [] = Inr []"
| "gather xs (i # js) =
     (case py_index xs i of
        Inl e \<Rightarrow> Inl e
      | Inr x \<Rightarrow> (case gather xs js of Inl e \<Rightarrow> Inl e | Inr ys \<Rightarrow> Inr (x # ys)))"

fun t_take :: "tensor \<Rightarrow> int list \<Rightarrow> error + tensor" where
  "t_take (Scalar a) js = Inl (IndexError ''too many indices for array'')"
| "t_take (Vec v) js = (case gather v js of Inl e \<Rightarrow> Inl e | Inr ys \<Rightarrow> Inr (Vec ys))"
| "t_take (Mat c rows) js = (case gather rows js of Inl e \<Rightarrow> Inl e | Inr rs \<Rightarrow> Inr (Mat c rs))"

fun t_newaxis :: "tensor \<Rightarrow> error + tensor" where
  "t_newaxis (Scalar a) = Inl (IndexError ''too many indices for array'')"
| "t_newaxis (Vec v) = Inr (Mat 1 (map (\<lambda>x. [x]) v))"
| "t_newaxis (Mat c rows) = Inl (ValueError ''rank above two'')"

definition inner :: "real list \<Rightarrow> real list \<Rightarrow> real" where
  "inner u v = sum_list (map2 (*) u v)"

definition column :: "real list list \<Rightarrow> nat \<Rightarrow> real list" where
  "column rows j = map (\<lambda>r. r ! j) rows"

fun t_dot :: "tensor \<Rightarrow> tensor \<Rightarrow> error + tensor" where
  "t_dot (Mat c rows) (Vec v) =
     (if c = length v then Inr (Vec (map (\<lambda>r. inner r v) rows))
      else Inl (ValueError ''shapes not aligned''))"
| "t_dot (Vec u) (Vec v) =
     (if length u = length v then Inr (Scalar (inner u v))
      else Inl (ValueError ''shapes not aligned''))"
| "t_dot (Vec u) (Mat c rows) =
     (if length u = length rows then Inr (Vec (map (\<lambda>j. inner u (column rows j)) [0..<c]))
      else Inl (ValueError ''shapes not aligned''))"
| "t_dot (Mat c rows) (Mat c' rows') =
     (if c = length rows'
      then Inr (Mat c' (map (\<lambda>r. map (\<lambda>j. inner r (column rows' j)) [0..<c']) rows))
      else Inl (ValueError ''shapes not aligned''))"
| "t_dot (Scalar a) t = broadcast (*) (Scalar a) t"
| "t_dot t (Scalar b) = broadcast (*) t (Scalar b)"

fun eval :: "(string \<Rightarrow> tensor option) \<Rightarrow> pyval \<Rightarrow> error + tensor" where
  "eval env (IntLit i) = Inr (Scalar (of_int i))"
| "eval env (Const t) = Inr t"
| "eval env (DistRV l d kw) = (case env l of Some t \<Rightarrow> Inr t | None \<Rightarrow> Inl (KeyError l))"
| "eval env (Deterministic l e) = eval env e"
| "eval env (Add a b) =
     (case eval env a of
        Inl e \<Rightarrow> Inl e
      | Inr x \<Rightarrow> (case eval env b of Inl e \<Rightarrow> Inl e | Inr y \<Rightarrow> broadcast (+) x y))"
| "eval env (Mul a b) =
     (case eval env a of
        Inl e \<Rightarrow> Inl e
      | Inr x \<Rightarrow> (case eval env b of Inl e \<Rightarrow> Inl e | Inr y \<Rightarrow> broadcast (*) x y))"
| "eval env (Dot a b) =
     (case eval env a of
        Inl e \<Rightarrow> Inl e
      | Inr x \<Rightarrow> (case eval env b of Inl e \<Rightarrow> Inl e | Inr y \<Rightarrow> t_dot x y))"
| "eval env (NewAxis a) = (case eval env a of Inl e \<Rightarrow> Inl e | Inr x \<Rightarrow> t_newaxis x)"
| "eval env (Take a js) = (case eval env a of Inl e \<Rightarrow> Inl e | Inr x \<Rightarrow> t_take x js)"
| "eval env (PriorV n args) = Inl (TypeError ''a prior specification is not an array'')"
| "eval env (Apply f a) = Inl (TypeError ''link functions are not interpreted'')"

section \<open>The model compiler\<close>

text \<open>
  What \<open>build\<close> reads of a term, of the family and of the specification. \<open>t_group_index\<close>
  and \<open>t_predictor\<close> are read for random terms only.
\<close>

record term_spec =
  t_name :: string
  t_data :: tensor
  t_prior_name :: dist_id
  t_prior_args :: kwargs
  t_random :: bool
  t_group_index :: "int list"
  t_predictor :: tensor

datatype link_id = LinkName string | LinkFn link_op

record family_spec =
  f_parent :: string
  f_link :: link_id
  f_prior_name :: dist_id
  f_prior_args :: kwargs

record model_spec =
  noncentered :: bool
  terms :: "term_spec list"
  y_name :: string
  y_data :: tensor
  family :: family_spec

text \<open>The trace of \<open>pm.sample\<close> and the object of \<open>pm.variational.ADVI\<close>, as the calls made.\<close>

datatype trace = PmSample pm_model pyval "pyval option" string int kwargs

datatype advi = ADVI pm_model "pyval option" kwargs

record backend =
  model :: pm_model
  mu :: "pyval option"
  par_groups :: kwargs
  spec :: "model_spec option"
  trace :: "trace option"
  advi_params :: "advi option"

definition reset :: "backend \<Rightarrow> backend" where
  "reset b = b\<lparr>model := [], mu := None, par_groups := []\<rparr>"

text \<open>\<open>__init__\<close>: \<open>reset()\<close>, then the four attributes are set to \<open>None\<close>.\<close>

definition init_backend :: backend where
  "init_backend =
     \<lparr>model = [], mu = None, par_groups = [], spec = None, trace = None, advi_params = None\<rparr>"

definition links :: "(string \<times> link_op) list" where
  "links = [(''identity'', Identity), (''logit'', Sigmoid), (''inverse'', Inv),
            (''inverse_squared'', InvSqrt), (''log'', Exp)]"

text \<open>Lines 109--110: a string is looked up in \<open>links\<close>, a callable is taken as it is.\<close>

fun resolve_link :: "link_id \<Rightarrow> error + link_op" where
  "resolve_link (LinkFn f) = Inr f"
| "resolve_link (LinkName n) =
     (case map_of links n of Some f \<Rightarrow> Inr f | None \<Rightarrow> Inl (KeyError n))"

text \<open>\<open>link_f(self.mu)\<close>: the identity link is \<open>lambda x: x\<close>, the others make a node.\<close>

fun apply_link :: "link_op \<Rightarrow> pyval \<Rightarrow> pyval" where
  "apply_link Identity x = x"
| "apply_link f x = Apply f x"

text \<open>
  What one term adds to \<open>self.mu\<close> (lines 101 and 103), given its built coefficient.
\<close>

definition contribution :: "term_spec \<Rightarrow> pyval \<Rightarrow> pyval" where
  "contribution t coef =
     (if t_random t
      then Mul (NewAxis (Take coef (t_group_index t))) (Const (t_predictor t))
      else NewAxis (Dot (Const (t_data t)) coef))"

text \<open>
  The keyword arguments of the call at line 98. Python refuses a call that gives
  \<open>shape\<close> twice, once by name and once through \<open>**dist_args\<close>.
\<close>

definition term_kwargs :: "term_spec \<Rightarrow> nat \<Rightarrow> error + kwargs" where
  "term_kwargs t n_cols =
     (if has_key ''shape'' (t_prior_args t)
      then Inl (TypeError ''got multiple values for keyword argument shape'')
      else Inr ((''shape'', IntLit (int n_cols)) # t_prior_args t))"

text \<open>One round of the loop over the terms (lines 90--103), on \<open>self.mu\<close> and the model.\<close>

definition add_term ::
  "runtime \<Rightarrow> bool \<Rightarrow> term_spec \<Rightarrow> pyval \<times> pm_model \<Rightarrow> error + (pyval \<times> pm_model)"
where
  "add_term rt nc t st =
     (case shape1 (t_data t) of
        Inl e \<Rightarrow> Inl e
      | Inr n_cols \<Rightarrow>
          (case term_kwargs t n_cols of
             Inl e \<Rightarrow> Inl e
           | Inr kw \<Rightarrow>
               (case build_dist rt nc (t_name t) (t_prior_name t) kw (snd st) of
                  Inl e \<Rightarrow> Inl e
                | Inr (coef, m') \<Rightarrow> Inr (Add (fst st) (contribution t coef), m'))))"

fun add_terms ::
  "runtime \<Rightarrow> bool \<Rightarrow> term_spec list \<Rightarrow> pyval \<times> pm_model \<Rightarrow> error + (pyval \<times> pm_model)"
where
  "add_terms rt nc [] st = Inr st"
| "add_terms rt nc (t # ts) st =
     (case add_term rt nc t st of Inl e \<Rightarrow> Inl e | Inr st' \<Rightarrow> add_terms rt nc ts st')"

text \<open>
  Lines 112--113 store into the dictionary \<open>y_prior.args\<close> of the specification itself:
  an existing key keeps its place, a new key goes to the end.
\<close>

definition response_args :: "model_spec \<Rightarrow> pyval \<Rightarrow> kwargs" where
  "response_args s lp =
     AList.update ''observed'' (Const (y_data s))
       (AList.update (f_parent (family s)) lp (f_prior_args (family s)))"

definition build :: "runtime \<Rightarrow> backend \<Rightarrow> model_spec \<Rightarrow> bool \<Rightarrow> error + backend" where
  "build rt b s do_reset =
     (let b1 = (if do_reset then reset b else b) in
      case add_terms rt (noncentered s) (terms s) (Const (Scalar 0), model b1) of
        Inl e \<Rightarrow> Inl e
      | Inr (lp, m1) \<Rightarrow>
          (case resolve_link (f_link (family s)) of
             Inl e \<Rightarrow> Inl e
           | Inr f \<Rightarrow>
               (let args = response_args s (apply_link f lp) in
                case build_dist rt (noncentered s) (y_name s) (f_prior_name (family s)) args m1 of
                  Inl e \<Rightarrow> Inl e
                | Inr (y, m2) \<Rightarrow>
                    Inr (b1\<lparr>model := m2, mu := Some lp,
                            spec := Some (s\<lparr>family := (family s)\<lparr>f_prior_args := args\<rparr>\<rparr>)\<rparr>))))"

section \<open>The Laplace approximation\<close>

text \<open>
  An array of any rank, as its shape and its elements in row-major order. The numeric
  services of the runtime that \<open>_laplace\<close> calls are parameters: the names of
  \<open>model.unobserved_RVs\<close>, \<open>pm.util.is_transformed_name\<close>, \<open>pm.find_MAP\<close>,
  \<open>pm.find_hessian\<close>, \<open>np.linalg.det\<close>, and \<open>stds_of\<close> for
  \<open>np.diag(np.linalg.inv(hessian) ** 0.5)\<close>. A variable is represented by its name.
\<close>

record ndarray =
  nd_shape :: "nat list"
  nd_data :: "real list"

record laplace_rt =
  unobserved_RVs :: "pm_model \<Rightarrow> string list"
  is_transformed_name :: "string \<Rightarrow> bool"
  find_MAP :: "pm_model \<Rightarrow> string list \<Rightarrow> (string \<times> ndarray) list"
  find_hessian :: "(string \<times> ndarray) list \<Rightarrow> string list \<Rightarrow> real list list"
  det :: "real list list \<Rightarrow> real"
  stds_of :: "real list list \<Rightarrow> real list"

text \<open>\<open>v.item() if v.size == 1 else v\<close>\<close>

datatype mode = Item real | Array ndarray

definition nd_size :: "ndarray \<Rightarrow> nat" where
  "nd_size v = prod_list (nd_shape v)"

definition mode_of :: "ndarray \<Rightarrow> mode" where
  "mode_of v = (if nd_size v = 1 then Item (hd (nd_data v)) else Array v)"

text \<open>\<open>np.atleast_1d(mode).shape\<close>\<close>

fun mode_shape :: "mode \<Rightarrow> nat list" where
  "mode_shape (Item x) = [1]"
| "mode_shape (Array v) = (if nd_shape v = [] then [1] else nd_shape v)"

text \<open>\<open>xs[i:j]\<close> for indices that are not negative.\<close>

definition py_slice :: "'a list \<Rightarrow> nat \<Rightarrow> nat \<Rightarrow> 'a list" where
  "py_slice xs i j = drop i (take j xs)"

definition np_reshape :: "real list \<Rightarrow> nat list \<Rightarrow> error + ndarray" where
  "np_reshape xs shape =
     (if prod_list shape = length xs then Inr \<lparr>nd_shape = shape, nd_data = xs\<rparr>
      else Inl (ValueError ''cannot reshape array''))"

text \<open>The loop of lines 188--193; \<open>idx0\<close> is the running offset.\<close>

fun reshape_stds :: "nat \<Rightarrow> nat list list \<Rightarrow> real list \<Rightarrow> error + ndarray list" where
  "reshape_stds idx0 [] stds = Inr []"
| "reshape_stds idx0 (shape # shapes) stds =
     (let idx1 = idx0 + sum_list shape in
      case np_reshape (py_slice stds idx0 idx1) shape of
        Inl e \<Rightarrow> Inl e
      | Inr a \<Rightarrow>
          (case reshape_stds idx1 shapes stds of
             Inl e \<Rightarrow> Inl e
           | Inr rest \<Rightarrow> Inr (a # rest)))"

definition singular_msg :: string where
  "singular_msg = ''Singular matrix. Use mcmc or advi method''"

text \<open>The result dictionary is kept as the list of its items, in the order of \<open>zip\<close>.\<close>

definition laplace :: "laplace_rt \<Rightarrow> pm_model \<Rightarrow> error + (string \<times> mode \<times> ndarray) list" where
  "laplace rt m =
     (let varis = filter (\<lambda>n. \<not> is_transformed_name rt n) (unobserved_RVs rt m);
          maps = find_MAP rt m varis;
          hessian = find_hessian rt maps varis
      in if det rt hessian = 0 then Inl (LinAlgError singular_msg)
         else
           (let stds = stds_of rt hessian;
                modes = map (mode_of \<circ> snd) (filter (\<lambda>(k, v). \<not> is_transformed_name rt k) maps);
                shapes = map mode_shape modes
            in case reshape_stds 0 shapes stds of
                 Inl e \<Rightarrow> Inl e
               | Inr stds_reshaped \<Rightarrow> Inr (zip varis (zip modes stds_reshaped))))"

section \<open>The inference runner\<close>

text \<open>\<open>str.lower\<close> on the letters A to Z; every other character is kept.\<close>

definition lower_char :: "char \<Rightarrow> char" where
  "lower_char c =
     (case map_of (zip ''ABCDEFGHIJKLMNOPQRSTUVWXYZ'' ''abcdefghijklmnopqrstuvwxyz'') c of
        Some l \<Rightarrow> l
      | None \<Rightarrow> c)"

definition lower :: "string \<Rightarrow> string" where
  "lower s = map lower_char s"

datatype run_result =
    FromPymc3 trace pm_model
  | AdviResult advi
  | LaplaceResult "(string \<times> mode \<times> ndarray) list"
  | PyNone

text \<open>
  \<open>run(start, method, init, n_init, **kwargs)\<close> returns its value and the back-end with
  the attributes it assigned. \<open>kwargs.pop("samples", 1000)\<close> takes the entry out of the
  dictionary before the rest is passed on.
\<close>

definition run ::
  "laplace_rt \<Rightarrow> backend \<Rightarrow> pyval option \<Rightarrow> string \<Rightarrow> string \<Rightarrow> int \<Rightarrow> kwargs
     \<Rightarrow> error + (run_result \<times> backend)"
where
  "run rt b start method init n_init kwargs =
     (if lower method = ''mcmc'' then
        (let samples = (case map_of kwargs ''samples'' of Some n \<Rightarrow> n | None \<Rightarrow> IntLit 1000);
             tr = PmSample (model b) samples start init n_init (AList.delete ''samples'' kwargs)
         in Inr (FromPymc3 tr (model b), b\<lparr>trace := Some tr\<rparr>))
      else if lower method = ''advi'' then
        (let a = ADVI (model b) start kwargs
         in Inr (AdviResult a, b\<lparr>advi_params := Some a\<rparr>))
      else if lower method = ''laplace'' then
        (case laplace rt (model b) of
           Inl e \<Rightarrow> Inl e
         | Inr d \<Rightarrow> Inr (LaplaceResult d, b))
      else Inr (PyNone, b))"

section \<open>A sample runtime\<close>

text \<open>
  A runtime for concrete evaluations: some distribution classes of the \<open>pm\<close> module, and
  the rule of the runtime that an unobserved variable of a distribution on the positive
  half-line is a transformed variable.
\<close>

definition sample_rt :: runtime where
  "sample_rt =
     \<lparr>pm_hasattr = (\<lambda>n. n \<in> set [''Normal'', ''HalfNormal'', ''HalfCauchy'', ''Cauchy'', ''Flat'']),
      is_TransformedRV = (\<lambda>v. case v of
           DistRV l d kw \<Rightarrow>
             d \<in> set [PmAttr ''HalfNormal'', PmAttr ''HalfCauchy'', PmBound (PmAttr ''Flat'') 0]
             \<and> \<not> has_key ''observed'' kw
         | _ \<Rightarrow> False)\<rparr>"

text \<open>A specification with one fixed and one random term, for concrete evaluations.\<close>

definition sample_fixed_term :: term_spec where
  "sample_fixed_term =
     \<lparr>t_name = ''x'', t_data = Mat 2 [[1, 2], [3, 4], [5, 6]],
      t_prior_name = DistName ''Normal'',
      t_prior_args = [(''mu'', IntLit 0), (''sigma'', IntLit 1)],
      t_random = False, t_group_index = [], t_predictor = Scalar 0\<rparr>"

definition sample_random_term :: term_spec where
  "sample_random_term =
     \<lparr>t_name = ''1|g'', t_data = Mat 2 [[1, 0], [0, 1], [1, 0]],
      t_prior_name = DistName ''Normal'',
      t_prior_args = [(''mu'', IntLit 0),
                      (''sigma'', PriorV (DistName ''HalfNormal'') [(''sigma'', IntLit 1)])],
      t_random = True, t_group_index = [0, 1, 0], t_predictor = Mat 1 [[2], [3], [4]]\<rparr>"

definition sample_spec :: model_spec where
  "sample_spec =
     \<lparr>noncentered = True, terms = [sample_fixed_term, sample_random_term],
      y_name = ''y'', y_data = Mat 1 [[1], [2], [3]],
      family = \<lparr>f_parent = ''mu'', f_link = LinkName ''identity'',
                f_prior_name = DistName ''Normal'',
                f_prior_args = [(''sigma'', PriorV (DistName ''HalfCauchy'') [(''beta'', IntLit 1)])]\<rparr>\<rparr>"



text \<open>
  A runtime for \<open>_laplace\<close> that answers with fixed results: the variables, the MAP
  point, the Hessian and the standard deviations are given; the determinant is computed
  by expansion along the first row, and a name is a transformed one when it ends in two
  underscores and holds at least three.
\<close>

definition del_nth :: "nat \<Rightarrow> 'a list \<Rightarrow> 'a list" where
  "del_nth j xs = take j xs @ drop (Suc j) xs"

function det_rows :: "real list list \<Rightarrow> real" where
  "det_rows [] = 1"
| "det_rows (r # rs) =
     (\<Sum>j\<leftarrow>[0..<length r]. (- 1) ^ j * r ! j * det_rows (map (del_nth j) rs))"
  by pat_completeness auto

termination
  by (relation "measure length") auto

definition transformed_name :: "string \<Rightarrow> bool" where
  "transformed_name n =
     (2 \<le> length n \<and> drop (length n - 2) n = ''__'' \<and> 3 \<le> count_list n CHR ''_'')"

definition fixed_lrt ::
  "string list \<Rightarrow> (string \<times> ndarray) list \<Rightarrow> real list list \<Rightarrow> real list \<Rightarrow> laplace_rt"
where
  "fixed_lrt names maps h stds =
     \<lparr>unobserved_RVs = (\<lambda>m. names), is_transformed_name = transformed_name,
      find_MAP = (\<lambda>m vs. maps), find_hessian = (\<lambda>mp vs. h),
      det = det_rows, stds_of = (\<lambda>h. stds)\<rparr>"

section \<open>Notions used to state the properties\<close>

text \<open>The name under which a variable is registered in the model.\<close>

fun rv_name :: "pyval \<Rightarrow> string option" where
  "rv_name (DistRV l d kw) = Some l"
| "rv_name (Deterministic l e) = Some l"
| "rv_name v = None"

text \<open>
  The offset walk as the specification words it, to compare with \<open>reshape_stds\<close>: each
  slice starts where the previous one ended and holds as many elements as the variable
  has.
\<close>

fun spec_walk :: "nat \<Rightarrow> nat list list \<Rightarrow> real list \<Rightarrow> ndarray list" where
  "spec_walk off [] stds = []"
| "spec_walk off (shape # shapes) stds =
     \<lparr>nd_shape = shape, nd_data = take (prod_list shape) (drop off stds)\<rparr>
       # spec_walk (off + prod_list shape) shapes stds"

section \<open>Properties of the distribution builder\<close>

lemma has_key_iff: "has_key k kw \<longleftrightarrow> k \<in> fst ` set kw"
  by (simp add: has_key_def map_of_eq_None_iff)

lemma expand_kwargs_keys:
  "expand_kwargs rt nc label kw m = Inr (kw', m') \<Longrightarrow> map fst kw' = map fst kw"
  by (induction kw arbitrary: kw' m m') (auto split: sum.splits prod.splits)

lemma has_key_cong: "map fst kw' = map fst kw \<Longrightarrow> has_key k kw' = has_key k kw"
  by (metis has_key_iff set_map)

lemmas builder_defs = sample_rt_def dists_def finish_dist_def noncentered_trigger_def has_key_def
  noncentered_rv_def offset_rv_def

text \<open>
  Claim C4. A string identifier is looked up among the attributes of the runtime first;
  when it is found there, the build goes on with that attribute, whatever the local table
  holds. Otherwise the local table \<open>dists\<close> is asked. A name in neither makes the builder
  raise, before any argument is expanded, a \<open>ValueError\<close> whose message carries the name
  and names both sources, PyMC3 and the PyMC3BackEnd.
\<close>

theorem resolution_order:
  "(pm_hasattr rt name \<longrightarrow>
      resolve_dist rt (DistName name) = Inr (PmAttr name) \<and>
      build_dist rt nc label (DistName name) kwargs m =
        build_dist rt nc label (DistObj (PmAttr name)) kwargs m) \<and>
   (\<not> pm_hasattr rt name \<longrightarrow> map_of dists name = Some d \<longrightarrow>
      resolve_dist rt (DistName name) = Inr d \<and>
      build_dist rt nc label (DistName name) kwargs m =
        build_dist rt nc label (DistObj d) kwargs m) \<and>
   (\<not> pm_hasattr rt name \<longrightarrow> map_of dists name = None \<longrightarrow>
      build_dist rt nc label (DistName name) kwargs m =
        Inl (ValueError (''The Distribution '' @ name @
                         '' was not found in PyMC3 or the PyMC3BackEnd.'')))"
  by (simp add: unknown_dist_msg_def)

theorem resolution_order_witness:
  "pm_hasattr sample_rt ''Flat'' \<and>
   build_dist sample_rt False ''b'' (DistName ''Flat'') [] [] =
     Inr (DistRV ''b'' (PmAttr ''Flat'') [], [DistRV ''b'' (PmAttr ''Flat'') []]) \<and>
   \<not> pm_hasattr sample_rt ''HalfFlat'' \<and>
   map_of dists ''HalfFlat'' = Some (PmBound (PmAttr ''Flat'') 0) \<and>
   build_dist sample_rt False ''b'' (DistName ''HalfFlat'') [] [] =
     Inr (DistRV ''b'' (PmBound (PmAttr ''Flat'') 0) [],
          [DistRV ''b'' (PmBound (PmAttr ''Flat'') 0) []]) \<and>
   \<not> pm_hasattr sample_rt ''Gumbell'' \<and> map_of dists ''Gumbell'' = None \<and>
   build_dist sample_rt False ''b'' (DistName ''Gumbell'')
       [(''mu'', PriorV (DistName ''Normal'') [])] [] =
     Inl (ValueError ''The Distribution Gumbell was not found in PyMC3 or the PyMC3BackEnd.'')"
  using resolution_order [where rt = sample_rt and name = "''Flat''" and nc = False
          and label = "''b''" and kwargs = "[]" and m = "[]"]
        resolution_order [where rt = sample_rt and name = "''HalfFlat''" and nc = False
          and d = "PmBound (PmAttr ''Flat'') 0" and label = "''b''" and kwargs = "[]" and m = "[]"]
        resolution_order [where rt = sample_rt and name = "''Gumbell''" and nc = False
          and label = "''b''" and kwargs = "[(''mu'', PriorV (DistName ''Normal'') [])]" and m = "[]"]
  by (simp add: sample_rt_def dists_def finish_dist_def noncentered_trigger_def has_key_def)

lemma finish_dist_model:
  "finish_dist rt nc label d kw m = Inr (v, m') \<Longrightarrow> \<exists>ext. m' = m @ ext @ [v]"
  unfolding finish_dist_def
  by (auto split: if_splits option.splits intro: exI [of _ "[]"] exI [of _ "[u]" for u])

lemma finish_dist_name:
  "finish_dist rt nc label d kw m = Inr (v, m') \<Longrightarrow> rv_name v = Some label"
  unfolding finish_dist_def noncentered_rv_def
  by (auto split: if_splits option.splits)

lemma model_grows:
  "\<forall>v m'. build_dist rt nc label dname kwargs m = Inr (v, m') \<longrightarrow> (\<exists>ext. m' = m @ ext @ [v])"
  "\<forall>v m'. expand_args rt nc key val label m = Inr (v, m') \<longrightarrow> (\<exists>ext. m' = m @ ext)"
  "\<forall>kw m'. expand_kwargs rt nc label kws m = Inr (kw, m') \<longrightarrow> (\<exists>ext. m' = m @ ext)"
proof (induction rt nc label dname kwargs m and rt nc key val label m and rt nc label kws m
       rule: build_dist_expand_args_expand_kwargs.induct)
  case (1 rt nc label dname kwargs m)
  show ?case
  proof (intro allI impI)
    fix v m'
    assume b: "build_dist rt nc label dname kwargs m = Inr (v, m')"
    then obtain d kw m1 where r: "resolve_dist rt dname = Inr d"
      and e: "expand_kwargs rt nc label kwargs m = Inr (kw, m1)"
      and f: "finish_dist rt nc label d kw m1 = Inr (v, m')"
      by (auto split: sum.splits)
    from "1.IH" [OF r] e obtain e1 where "m1 = m @ e1" by blast
    moreover from finish_dist_model [OF f] obtain e2 where "m' = m1 @ e2 @ [v]" by blast
    ultimately show "\<exists>ext. m' = m @ ext @ [v]" by simp
  qed
next
  case (2 rt nc key val label m)
  show ?case
  proof (cases val)
    case (PriorV name args)
    with "2.IH" show ?thesis by fastforce
  qed auto
next
  case (3 rt nc label m)
  show ?case by simp
next
  case (4 rt nc label k v rest m)
  show ?case
  proof (intro allI impI)
    fix kw m'
    assume a: "expand_kwargs rt nc label ((k, v) # rest) m = Inr (kw, m')"
    then obtain v' m1 kw' where x: "expand_args rt nc k v label m = Inr (v', m1)"
      and y: "expand_kwargs rt nc label rest m1 = Inr (kw', m')"
      by (auto split: sum.splits)
    from "4.IH"(1) x obtain e1 where "m1 = m @ e1" by blast
    moreover from "4.IH"(2) [OF x refl] y obtain e2 where "m' = m1 @ e2" by blast
    ultimately show "\<exists>ext. m' = m @ ext" by simp
  qed
qed

lemma build_dist_parts:
  assumes "build_dist rt nc label dname kwargs m = Inr (v, m')"
  obtains d kw m1 where "resolve_dist rt dname = Inr d"
    and "expand_kwargs rt nc label kwargs m = Inr (kw, m1)"
    and "finish_dist rt nc label d kw m1 = Inr (v, m')"
  using assms by (auto split: sum.splits)

lemma build_dist_name:
  "build_dist rt nc label dname kwargs m = Inr (v, m') \<Longrightarrow> rv_name v = Some label"
  by (erule build_dist_parts) (rule finish_dist_name)

lemma expand_kwargs_nth:
  "expand_kwargs rt nc label kws m = Inr (kw, m1) \<Longrightarrow> i < length kws \<Longrightarrow>
   (case snd (kws ! i) of
      PriorV name args \<Rightarrow>
        (\<exists>ma mb mc.
           build_dist rt nc (label @ ''_'' @ fst (kws ! i)) name args (m @ ma)
             = Inr (snd (kw ! i), m @ ma @ mb @ [snd (kw ! i)]) \<and>
           m1 = m @ ma @ mb @ [snd (kw ! i)] @ mc)
    | u \<Rightarrow> snd (kw ! i) = u)"
proof (induction kws arbitrary: m kw i)
  case Nil
  then show ?case by simp
next
  case (Cons p rest)
  obtain k v where p: "p = (k, v)" by (cases p)
  from Cons.prems(1) p obtain v' m0 kw' where
    x: "expand_args rt nc k v label m = Inr (v', m0)" and
    y: "expand_kwargs rt nc label rest m0 = Inr (kw', m1)" and
    kw: "kw = (k, v') # kw'"
    by (auto split: sum.splits)
  from model_grows(2) x obtain e0 where e0: "m0 = m @ e0" by blast
  from model_grows(3) y obtain e1 where e1: "m1 = m0 @ e1" by blast
  show ?case
  proof (cases i)
    case 0
    show ?thesis
    proof (cases v)
      case (PriorV name args)
      with x have b: "build_dist rt nc (label @ ''_'' @ k) name args m = Inr (v', m0)" by simp
      from model_grows(1) b obtain mb where "m0 = m @ mb @ [v']" by blast
      with b e1 have "build_dist rt nc (label @ ''_'' @ k) name args (m @ [])
             = Inr (v', m @ [] @ mb @ [v']) \<and> m1 = m @ [] @ mb @ [v'] @ e1"
        by simp
      then show ?thesis using 0 p kw PriorV by (auto simp del: append_Nil append_Nil2 build_dist.simps)
    qed (use x 0 p kw in auto)
  next
    case (Suc j)
    with Cons.prems(2) have j: "j < length rest" by simp
    note ih = Cons.IH [OF y j]
    show ?thesis
    proof (cases "snd (rest ! j)")
      case (PriorV name args)
      with ih obtain ma mb mc where
        "build_dist rt nc (label @ ''_'' @ fst (rest ! j)) name args (m0 @ ma)
             = Inr (snd (kw' ! j), m0 @ ma @ mb @ [snd (kw' ! j)])"
        "m1 = m0 @ ma @ mb @ [snd (kw' ! j)] @ mc" by auto
      with e0 have "build_dist rt nc (label @ ''_'' @ fst (rest ! j)) name args (m @ (e0 @ ma))
             = Inr (snd (kw' ! j), m @ (e0 @ ma) @ mb @ [snd (kw' ! j)]) \<and>
        m1 = m @ (e0 @ ma) @ mb @ [snd (kw' ! j)] @ mc" by simp
      then show ?thesis using Suc p kw PriorV by (auto simp del: build_dist.simps append_assoc)
    qed (use ih Suc p kw in auto)
  qed
qed

text \<open>
  Claim C8. Whenever the builder returns, the arguments were expanded first, in order,
  and the owning variable was made from the expanded arguments and registered last. The
  expanded arguments have the keys of the call. An argument that is a nested prior was
  built by a call of the builder under the label \<open>label_key\<close>, in the model left by the
  arguments before it; that call registered the resulting variable, which carries the
  derived name and stands in the argument's place. Every other argument is unchanged.
\<close>

theorem nested_priors_built_first:
  assumes "build_dist rt nc label dname kwargs m = Inr (v, m')"
  shows "\<exists>d kw m1 own.
           resolve_dist rt dname = Inr d \<and>
           expand_kwargs rt nc label kwargs m = Inr (kw, m1) \<and>
           finish_dist rt nc label d kw m1 = Inr (v, m1 @ own @ [v]) \<and>
           m' = m1 @ own @ [v] \<and>
           map fst kw = map fst kwargs \<and>
           (\<forall>i<length kwargs.
              case snd (kwargs ! i) of
                PriorV name args \<Rightarrow>
                  rv_name (snd (kw ! i)) = Some (label @ ''_'' @ fst (kwargs ! i)) \<and>
                  (\<exists>ma mb mc.
                     build_dist rt nc (label @ ''_'' @ fst (kwargs ! i)) name args (m @ ma)
                       = Inr (snd (kw ! i), m @ ma @ mb @ [snd (kw ! i)]) \<and>
                     m1 = m @ ma @ mb @ [snd (kw ! i)] @ mc)
              | u \<Rightarrow> snd (kw ! i) = u)"
proof -
  from assms obtain d kw m1 where r: "resolve_dist rt dname = Inr d"
    and e: "expand_kwargs rt nc label kwargs m = Inr (kw, m1)"
    and f: "finish_dist rt nc label d kw m1 = Inr (v, m')"
    by (rule build_dist_parts)
  from finish_dist_model [OF f] obtain own where own: "m' = m1 @ own @ [v]" by blast
  have nth: "case snd (kwargs ! i) of
                PriorV name args \<Rightarrow>
                  rv_name (snd (kw ! i)) = Some (label @ ''_'' @ fst (kwargs ! i)) \<and>
                  (\<exists>ma mb mc.
                     build_dist rt nc (label @ ''_'' @ fst (kwargs ! i)) name args (m @ ma)
                       = Inr (snd (kw ! i), m @ ma @ mb @ [snd (kw ! i)]) \<and>
                     m1 = m @ ma @ mb @ [snd (kw ! i)] @ mc)
              | u \<Rightarrow> snd (kw ! i) = u" if i: "i < length kwargs" for i
  proof (cases "snd (kwargs ! i)")
    case (PriorV name args)
    with expand_kwargs_nth [OF e i] obtain ma mb mc where
      b: "build_dist rt nc (label @ ''_'' @ fst (kwargs ! i)) name args (m @ ma)
             = Inr (snd (kw ! i), m @ ma @ mb @ [snd (kw ! i)])"
      and m1: "m1 = m @ ma @ mb @ [snd (kw ! i)] @ mc" by auto
    from build_dist_name [OF b] b m1 PriorV show ?thesis by (auto simp del: build_dist.simps)
  qed (use expand_kwargs_nth [OF e i] in auto)
  from r e f own expand_kwargs_keys [OF e] nth show ?thesis by blast
qed

theorem nested_priors_built_first_witness:
  "build_dist sample_rt False ''x'' (DistName ''Normal'')
     [(''shape'', IntLit 2), (''sigma'', PriorV (DistName ''HalfNormal'') [(''sigma'', IntLit 1)])] []
   = Inr (DistRV ''x'' (PmAttr ''Normal'')
            [(''shape'', IntLit 2), (''sigma'', DistRV ''x_sigma'' (PmAttr ''HalfNormal'') [(''sigma'', IntLit 1)])],
          [DistRV ''x_sigma'' (PmAttr ''HalfNormal'') [(''sigma'', IntLit 1)],
           DistRV ''x'' (PmAttr ''Normal'')
            [(''shape'', IntLit 2), (''sigma'', DistRV ''x_sigma'' (PmAttr ''HalfNormal'') [(''sigma'', IntLit 1)])]]) \<and>
   (\<exists>d kw m1 own.
      resolve_dist sample_rt (DistName ''Normal'') = Inr d \<and>
      expand_kwargs sample_rt False ''x''
        [(''shape'', IntLit 2), (''sigma'', PriorV (DistName ''HalfNormal'') [(''sigma'', IntLit 1)])] []
        = Inr (kw, m1) \<and>
      snd (kw ! 0) = IntLit 2 \<and>
      rv_name (snd (kw ! 1)) = Some ''x_sigma'')"
proof -
  have b: "build_dist sample_rt False ''x'' (DistName ''Normal'')
     [(''shape'', IntLit 2), (''sigma'', PriorV (DistName ''HalfNormal'') [(''sigma'', IntLit 1)])] []
   = Inr (DistRV ''x'' (PmAttr ''Normal'')
            [(''shape'', IntLit 2), (''sigma'', DistRV ''x_sigma'' (PmAttr ''HalfNormal'') [(''sigma'', IntLit 1)])],
          [DistRV ''x_sigma'' (PmAttr ''HalfNormal'') [(''sigma'', IntLit 1)],
           DistRV ''x'' (PmAttr ''Normal'')
            [(''shape'', IntLit 2), (''sigma'', DistRV ''x_sigma'' (PmAttr ''HalfNormal'') [(''sigma'', IntLit 1)])]])"
    by (simp add: builder_defs)
  from nested_priors_built_first [OF b] obtain d kw m1 own where
    r: "resolve_dist sample_rt (DistName ''Normal'') = Inr d" and
    e: "expand_kwargs sample_rt False ''x''
        [(''shape'', IntLit 2), (''sigma'', PriorV (DistName ''HalfNormal'') [(''sigma'', IntLit 1)])] []
        = Inr (kw, m1)" and
    n: "\<forall>i<length [(''shape'', IntLit 2), (''sigma'', PriorV (DistName ''HalfNormal'') [(''sigma'', IntLit 1)])].
              case snd ([(''shape'', IntLit 2), (''sigma'', PriorV (DistName ''HalfNormal'') [(''sigma'', IntLit 1)])] ! i) of
                PriorV name args \<Rightarrow>
                  rv_name (snd (kw ! i)) = Some (''x'' @ ''_'' @ fst ([(''shape'', IntLit 2), (''sigma'', PriorV (DistName ''HalfNormal'') [(''sigma'', IntLit 1)])] ! i)) \<and>
                  (\<exists>ma mb mc.
                     build_dist sample_rt False (''x'' @ ''_'' @ fst ([(''shape'', IntLit 2), (''sigma'', PriorV (DistName ''HalfNormal'') [(''sigma'', IntLit 1)])] ! i)) name args ([] @ ma)
                       = Inr (snd (kw ! i), [] @ ma @ mb @ [snd (kw ! i)]) \<and>
                     m1 = [] @ ma @ mb @ [snd (kw ! i)] @ mc)
              | u \<Rightarrow> snd (kw ! i) = u"
    by blast
  from n [rule_format, of 0] have n0: "snd (kw ! 0) = IntLit 2" by simp
  from n [rule_format, of 1] have n1: "rv_name (snd (kw ! 1)) = Some ''x_sigma''" by simp
  from b r e n0 n1 show ?thesis by blast
qed

text \<open>
  Let the name be resolved and the arguments expanded to \<open>kw\<close>. When the non-centered flag
  is set, \<open>sigma\<close> is among the keyword arguments, \<open>observed\<close> is not, the resolved \<open>sigma\<close>
  is a transformed variable, and the call carries a \<open>shape\<close>, the builder registers a
  standard normal variable \<open>label_offset\<close> of that shape and returns the deterministic
  product of the offset and \<open>sigma\<close> under \<open>label\<close>. When one of the four conditions
  fails, it constructs the resolved distribution with the expanded arguments, with or
  without a \<open>shape\<close>.
\<close>

lemma noncentered_branch_with_shape:
  assumes "resolve_dist rt dname = Inr d"
      and "expand_kwargs rt nc label kwargs m = Inr (kw, m1)"
  shows "(nc \<and> ''sigma'' \<in> fst ` set kwargs \<and> ''observed'' \<notin> fst ` set kwargs \<and>
          map_of kw ''sigma'' = Some sg \<and> is_TransformedRV rt sg \<and>
          map_of kw ''shape'' = Some s \<longrightarrow>
            build_dist rt nc label dname kwargs m =
              Inr (Deterministic label
                     (Mul (DistRV (label @ ''_offset'') (PmAttr ''Normal'')
                             [(''mu'', IntLit 0), (''sigma'', IntLit 1), (''shape'', s)]) sg),
                   m1 @ [DistRV (label @ ''_offset'') (PmAttr ''Normal'')
                             [(''mu'', IntLit 0), (''sigma'', IntLit 1), (''shape'', s)],
                         Deterministic label
                     (Mul (DistRV (label @ ''_offset'') (PmAttr ''Normal'')
                             [(''mu'', IntLit 0), (''sigma'', IntLit 1), (''shape'', s)]) sg)])) \<and>
         (\<not> (nc \<and> ''sigma'' \<in> fst ` set kwargs \<and> ''observed'' \<notin> fst ` set kwargs \<and>
             (\<exists>sg. map_of kw ''sigma'' = Some sg \<and> is_TransformedRV rt sg)) \<longrightarrow>
            build_dist rt nc label dname kwargs m =
              Inr (DistRV label d kw, m1 @ [DistRV label d kw]))"
proof -
  have k: "has_key a kw = (a \<in> fst ` set kwargs)" for a
    using expand_kwargs_keys [OF assms(2)] by (metis has_key_iff set_map)
  have t: "noncentered_trigger rt nc kw \<longleftrightarrow>
        nc \<and> ''sigma'' \<in> fst ` set kwargs \<and> ''observed'' \<notin> fst ` set kwargs \<and>
             (\<exists>sg. map_of kw ''sigma'' = Some sg \<and> is_TransformedRV rt sg)"
    unfolding noncentered_trigger_def k by (auto split: option.splits)
  show ?thesis
    using assms t by (auto simp: finish_dist_def noncentered_rv_def offset_rv_def)
qed

lemma noncentered_branch_with_shape_example:
  "build_dist sample_rt True ''x'' (DistName ''Normal'')
     [(''shape'', IntLit 2), (''sigma'', PriorV (DistName ''HalfNormal'') [(''sigma'', IntLit 1)])] []
   = Inr (Deterministic ''x''
            (Mul (DistRV ''x_offset'' (PmAttr ''Normal'')
                    [(''mu'', IntLit 0), (''sigma'', IntLit 1), (''shape'', IntLit 2)])
                 (DistRV ''x_sigma'' (PmAttr ''HalfNormal'') [(''sigma'', IntLit 1)])),
          [DistRV ''x_sigma'' (PmAttr ''HalfNormal'') [(''sigma'', IntLit 1)],
           DistRV ''x_offset'' (PmAttr ''Normal'')
                    [(''mu'', IntLit 0), (''sigma'', IntLit 1), (''shape'', IntLit 2)],
           Deterministic ''x''
            (Mul (DistRV ''x_offset'' (PmAttr ''Normal'')
                    [(''mu'', IntLit 0), (''sigma'', IntLit 1), (''shape'', IntLit 2)])
                 (DistRV ''x_sigma'' (PmAttr ''HalfNormal'') [(''sigma'', IntLit 1)]))]) \<and>
   build_dist sample_rt True ''x'' (DistName ''Normal'')
     [(''shape'', IntLit 2), (''sigma'', IntLit 1)] []
   = Inr (DistRV ''x'' (PmAttr ''Normal'') [(''shape'', IntLit 2), (''sigma'', IntLit 1)],
          [DistRV ''x'' (PmAttr ''Normal'') [(''shape'', IntLit 2), (''sigma'', IntLit 1)]])"
proof -
  have r: "resolve_dist sample_rt (DistName ''Normal'') = Inr (PmAttr ''Normal'')"
    by (simp add: sample_rt_def)
  have e1: "expand_kwargs sample_rt True ''x''
     [(''shape'', IntLit 2), (''sigma'', PriorV (DistName ''HalfNormal'') [(''sigma'', IntLit 1)])] []
     = Inr ([(''shape'', IntLit 2), (''sigma'', DistRV ''x_sigma'' (PmAttr ''HalfNormal'') [(''sigma'', IntLit 1)])],
            [DistRV ''x_sigma'' (PmAttr ''HalfNormal'') [(''sigma'', IntLit 1)]])"
    by (simp add: builder_defs)
  have e2: "expand_kwargs sample_rt True ''x'' [(''shape'', IntLit 2), (''sigma'', IntLit 1)] []
     = Inr ([(''shape'', IntLit 2), (''sigma'', IntLit 1)], [])"
    by simp
  show ?thesis
    using noncentered_branch_with_shape [OF r e1, where s = "IntLit 2"
            and sg = "DistRV ''x_sigma'' (PmAttr ''HalfNormal'') [(''sigma'', IntLit 1)]"]
          noncentered_branch_with_shape [OF r e2]
    by (simp add: sample_rt_def has_key_def)
qed

text \<open>
  Claim C1. Where the four conditions hold, the claim has the offset variable made and the
  deterministic product returned. Line 69 reads \<open>kwargs["shape"]\<close> without a guard. The
  recursive call for a hyperprior whose own \<open>sigma\<close> has a hyperprior carries that prior's
  arguments only: it meets the four conditions with no \<open>shape\<close> and raises \<open>KeyError\<close>,
  so that no offset variable is made and the build of the owning term fails. With the
  flag off, the direct path builds the same call.
\<close>

theorem noncentered_branch_without_shape:
  "resolve_dist sample_rt (DistName ''HalfNormal'') = Inr (PmAttr ''HalfNormal'') \<and>
   expand_kwargs sample_rt True ''x_sigma''
     [(''sigma'', PriorV (DistName ''HalfCauchy'') [(''beta'', IntLit 1)])] []
     = Inr ([(''sigma'', DistRV ''x_sigma_sigma'' (PmAttr ''HalfCauchy'') [(''beta'', IntLit 1)])],
            [DistRV ''x_sigma_sigma'' (PmAttr ''HalfCauchy'') [(''beta'', IntLit 1)]]) \<and>
   is_TransformedRV sample_rt (DistRV ''x_sigma_sigma'' (PmAttr ''HalfCauchy'') [(''beta'', IntLit 1)]) \<and>
   build_dist sample_rt True ''x_sigma'' (DistName ''HalfNormal'')
     [(''sigma'', PriorV (DistName ''HalfCauchy'') [(''beta'', IntLit 1)])] []
     = Inl (KeyError ''shape'') \<and>
   build_dist sample_rt False ''x_sigma'' (DistName ''HalfNormal'')
     [(''sigma'', PriorV (DistName ''HalfCauchy'') [(''beta'', IntLit 1)])] []
     = Inr (DistRV ''x_sigma'' (PmAttr ''HalfNormal'')
              [(''sigma'', DistRV ''x_sigma_sigma'' (PmAttr ''HalfCauchy'') [(''beta'', IntLit 1)])],
            [DistRV ''x_sigma_sigma'' (PmAttr ''HalfCauchy'') [(''beta'', IntLit 1)],
             DistRV ''x_sigma'' (PmAttr ''HalfNormal'')
              [(''sigma'', DistRV ''x_sigma_sigma'' (PmAttr ''HalfCauchy'') [(''beta'', IntLit 1)])]]) \<and>
   build_dist sample_rt True ''x'' (DistName ''Normal'')
     [(''shape'', IntLit 2), (''mu'', IntLit 0),
      (''sigma'', PriorV (DistName ''HalfNormal'')
         [(''sigma'', PriorV (DistName ''HalfCauchy'') [(''beta'', IntLit 1)])])] []
     = Inl (KeyError ''shape'')"
  by (simp add: builder_defs)

text \<open>
  Claim C9. The call for a nested prior passes the prior's own arguments and nothing
  else. When those arguments meet the four conditions of the non-centered branch, the
  nested call returns a variable exactly when \<open>shape\<close> is among them; without it the call
  raises \<open>KeyError\<close> for \<open>shape\<close>, and so does the build of every owner whose first
  argument is that prior.
\<close>

theorem nested_noncentered_needs_shape:
  assumes "resolve_dist rt name = Inr d"
      and "expand_kwargs rt nc (label @ ''_'' @ key) args m = Inr (kw, m1)"
      and "nc" and "''sigma'' \<in> fst ` set args" and "''observed'' \<notin> fst ` set args"
      and "map_of kw ''sigma'' = Some sg" and "is_TransformedRV rt sg"
  shows "expand_args rt nc key (PriorV name args) label m =
           build_dist rt nc (label @ ''_'' @ key) name args m \<and>
         ((\<exists>r. build_dist rt nc (label @ ''_'' @ key) name args m = Inr r)
            \<longleftrightarrow> ''shape'' \<in> fst ` set args) \<and>
         (''shape'' \<notin> fst ` set args \<longrightarrow>
            expand_args rt nc key (PriorV name args) label m = Inl (KeyError ''shape'') \<and>
            (\<forall>owner rest d'. resolve_dist rt owner = Inr d' \<longrightarrow>
               build_dist rt nc label owner ((key, PriorV name args) # rest) m
                 = Inl (KeyError ''shape'')))"
proof -
  have k: "has_key a kw = (a \<in> fst ` set args)" for a
    using expand_kwargs_keys [OF assms(2)] by (metis has_key_iff set_map)
  have t: "noncentered_trigger rt nc kw"
    unfolding noncentered_trigger_def k using assms by simp
  have s: "(map_of kw ''shape'' = None) = (''shape'' \<notin> fst ` set args)"
    using k [of "''shape''"] unfolding has_key_def by auto
  have b: "build_dist rt nc (label @ ''_'' @ key) name args m =
        (case map_of kw ''shape'' of
           None \<Rightarrow> Inl (KeyError ''shape'')
         | Some s \<Rightarrow> Inr (noncentered_rv (label @ ''_'' @ key) s sg,
               m1 @ [offset_rv (label @ ''_'' @ key) s, noncentered_rv (label @ ''_'' @ key) s sg]))"
    using assms t by (simp add: finish_dist_def split: option.splits)
  have 1: "expand_args rt nc key (PriorV name args) label m =
           build_dist rt nc (label @ ''_'' @ key) name args m"
    by simp
  have 2: "(\<exists>r. build_dist rt nc (label @ ''_'' @ key) name args m = Inr r)
            \<longleftrightarrow> ''shape'' \<in> fst ` set args"
    unfolding b using s by (cases "map_of kw ''shape''") auto
  have 3: "build_dist rt nc (label @ ''_'' @ key) name args m = Inl (KeyError ''shape'')"
    if "''shape'' \<notin> fst ` set args"
    unfolding b using s that by simp
  have 4: "build_dist rt nc label owner ((key, PriorV name args) # rest) m
                 = Inl (KeyError ''shape'')"
    if "''shape'' \<notin> fst ` set args" "resolve_dist rt owner = Inr d'" for owner rest d'
    using 3 [OF that(1)] that(2) by (simp del: build_dist.simps add: build_dist.simps [of rt nc label owner])
  from 1 2 3 4 show ?thesis by (simp del: build_dist.simps expand_args.simps)
qed

theorem nested_noncentered_needs_shape_witness:
  "resolve_dist sample_rt (DistName ''HalfNormal'') = Inr (PmAttr ''HalfNormal'') \<and>
   expand_kwargs sample_rt True (''u'' @ ''_'' @ ''sigma'')
     [(''sigma'', PriorV (DistName ''HalfCauchy'') [(''beta'', IntLit 5)])] []
     = Inr ([(''sigma'', DistRV ''u_sigma_sigma'' (PmAttr ''HalfCauchy'') [(''beta'', IntLit 5)])],
            [DistRV ''u_sigma_sigma'' (PmAttr ''HalfCauchy'') [(''beta'', IntLit 5)]]) \<and>
   is_TransformedRV sample_rt (DistRV ''u_sigma_sigma'' (PmAttr ''HalfCauchy'') [(''beta'', IntLit 5)]) \<and>
   expand_args sample_rt True ''sigma''
     (PriorV (DistName ''HalfNormal'') [(''sigma'', PriorV (DistName ''HalfCauchy'') [(''beta'', IntLit 5)])])
     ''u'' [] = Inl (KeyError ''shape'') \<and>
   build_dist sample_rt True ''u'' (DistName ''Cauchy'')
     [(''sigma'', PriorV (DistName ''HalfNormal'')
         [(''sigma'', PriorV (DistName ''HalfCauchy'') [(''beta'', IntLit 5)])]),
      (''shape'', IntLit 3)] []
     = Inl (KeyError ''shape'')"
proof -
  have r: "resolve_dist sample_rt (DistName ''HalfNormal'') = Inr (PmAttr ''HalfNormal'')"
    by (simp add: sample_rt_def)
  have e: "expand_kwargs sample_rt True (''u'' @ ''_'' @ ''sigma'')
     [(''sigma'', PriorV (DistName ''HalfCauchy'') [(''beta'', IntLit 5)])] []
     = Inr ([(''sigma'', DistRV ''u_sigma_sigma'' (PmAttr ''HalfCauchy'') [(''beta'', IntLit 5)])],
            [DistRV ''u_sigma_sigma'' (PmAttr ''HalfCauchy'') [(''beta'', IntLit 5)]])"
    by (simp add: builder_defs)
  have t: "is_TransformedRV sample_rt (DistRV ''u_sigma_sigma'' (PmAttr ''HalfCauchy'') [(''beta'', IntLit 5)])"
    by (simp add: builder_defs)
  have c: "resolve_dist sample_rt (DistName ''Cauchy'') = Inr (PmAttr ''Cauchy'')"
    by (simp add: sample_rt_def)
  note n = nested_noncentered_needs_shape [OF r e _ _ _ _ t, simplified]
  from n have "expand_args sample_rt True ''sigma''
     (PriorV (DistName ''HalfNormal'') [(''sigma'', PriorV (DistName ''HalfCauchy'') [(''beta'', IntLit 5)])])
     ''u'' [] = Inl (KeyError ''shape'')" by (simp add: builder_defs)
  moreover from n c have "build_dist sample_rt True ''u'' (DistName ''Cauchy'')
     [(''sigma'', PriorV (DistName ''HalfNormal'')
         [(''sigma'', PriorV (DistName ''HalfCauchy'') [(''beta'', IntLit 5)])]),
      (''shape'', IntLit 3)] []
     = Inl (KeyError ''shape'')" by (simp add: builder_defs)
  ultimately show ?thesis using r e t by blast
qed

section \<open>Properties of the model compiler\<close>

lemmas sample_defs = sample_spec_def sample_fixed_term_def sample_random_term_def

lemma add_term_parts:
  assumes "add_term rt nc t (lp, m) = Inr (lp', m')"
  obtains k coef where "shape1 (t_data t) = Inr k"
    and "\<not> has_key ''shape'' (t_prior_args t)"
    and "build_dist rt nc (t_name t) (t_prior_name t)
           ((''shape'', IntLit (int k)) # t_prior_args t) m = Inr (coef, m')"
    and "lp' = Add lp (contribution t coef)"
  using assms unfolding add_term_def term_kwargs_def
  by (auto split: sum.splits if_splits simp del: build_dist.simps)

lemma add_terms_coefs:
  "add_terms rt nc ts (lp, m) = Inr (lp', m') \<Longrightarrow>
   \<exists>coefs. length coefs = length ts \<and>
     lp' = foldl Add lp (map2 contribution ts coefs) \<and>
     (\<forall>i<length ts. \<exists>k mi mi'.
        shape1 (t_data (ts ! i)) = Inr k \<and>
        build_dist rt nc (t_name (ts ! i)) (t_prior_name (ts ! i))
          ((''shape'', IntLit (int k)) # t_prior_args (ts ! i)) mi = Inr (coefs ! i, mi'))"
proof (induction ts arbitrary: lp m)
  case Nil
  then show ?case by simp
next
  case (Cons t ts)
  from Cons.prems obtain lp1 m1 where
    a: "add_term rt nc t (lp, m) = Inr (lp1, m1)" and
    b: "add_terms rt nc ts (lp1, m1) = Inr (lp', m')"
    by (auto split: sum.splits)
  from a obtain k coef where k: "shape1 (t_data t) = Inr k"
    and bd: "build_dist rt nc (t_name t) (t_prior_name t)
           ((''shape'', IntLit (int k)) # t_prior_args t) m = Inr (coef, m1)"
    and lp1: "lp1 = Add lp (contribution t coef)"
    by (rule add_term_parts)
  from Cons.IH [OF b] obtain coefs where
    len: "length coefs = length ts" and
    f: "lp' = foldl Add lp1 (map2 contribution ts coefs)" and
    each: "\<forall>i<length ts. \<exists>k mi mi'.
        shape1 (t_data (ts ! i)) = Inr k \<and>
        build_dist rt nc (t_name (ts ! i)) (t_prior_name (ts ! i))
          ((''shape'', IntLit (int k)) # t_prior_args (ts ! i)) mi = Inr (coefs ! i, mi')"
    by blast
  have 1: "length (coef # coefs) = length (t # ts)" using len by simp
  have 2: "lp' = foldl Add lp (map2 contribution (t # ts) (coef # coefs))"
    using f lp1 by simp
  have 3: "\<exists>k mi mi'.
        shape1 (t_data ((t # ts) ! i)) = Inr k \<and>
        build_dist rt nc (t_name ((t # ts) ! i)) (t_prior_name ((t # ts) ! i))
          ((''shape'', IntLit (int k)) # t_prior_args ((t # ts) ! i)) mi
          = Inr ((coef # coefs) ! i, mi')" if "i < length (t # ts)" for i
  proof (cases i)
    case 0
    with k bd show ?thesis by (auto simp del: build_dist.simps)
  next
    case (Suc j)
    with that each show ?thesis by (auto simp del: build_dist.simps)
  qed
  from 1 2 3 show ?case by blast
qed

lemma build_mu:
  assumes "build rt b s r = Inr b'"
  shows "\<exists>coefs. length coefs = length (terms s) \<and>
     mu b' = Some (foldl Add (Const (Scalar 0)) (map2 contribution (terms s) coefs)) \<and>
     (\<forall>i<length (terms s). \<exists>k mi mi'.
        shape1 (t_data (terms s ! i)) = Inr k \<and>
        build_dist rt (noncentered s) (t_name (terms s ! i)) (t_prior_name (terms s ! i))
          ((''shape'', IntLit (int k)) # t_prior_args (terms s ! i)) mi = Inr (coefs ! i, mi'))"
proof -
  from assms obtain lp m0 m1 where
    a: "add_terms rt (noncentered s) (terms s) (Const (Scalar 0), m0) = Inr (lp, m1)" and
    m: "mu b' = Some lp"
    unfolding build_def Let_def
    by (auto split: sum.splits if_splits simp del: build_dist.simps)
  from add_terms_coefs [OF a] m show ?thesis by (auto simp del: build_dist.simps)
qed

lemma inner_sum:
  "length u = length v \<Longrightarrow> inner u v = sum (\<lambda>j. u ! j * v ! j) {..<length u}"
  unfolding inner_def
  by (simp add: sum_list_sum_nth atLeast0LessThan)

lemma eval_fixed:
  assumes "eval env coef = Inr (Vec c)" and "length c = k"
  shows "eval env (NewAxis (Dot (Const (Mat k rows)) coef))
           = Inr (Mat 1 (map (\<lambda>r. [inner r c]) rows))"
  using assms by (simp add: comp_def)









text \<open>
  Claim C6. After a build, the predictor is the sum, started at the constant zero, of one
  contribution for each term, in order. For a fixed term with a data matrix of \<open>k\<close>
  columns the coefficient was built with \<open>shape = k\<close>, and the contribution is the dot
  product of the data matrix and the coefficient, turned into a column. At every point
  where the coefficient is a vector of \<open>k\<close> entries, that column has shape \<open>(n, 1)\<close> for
  the \<open>n\<close> rows of the matrix, and its row \<open>i\<close> is the sum over \<open>j\<close> of
  \<open>data[i][j] * coefficient[j]\<close>.
\<close>

theorem fixed_effect_contribution:
  assumes "build rt b s r = Inr b'"
  shows "\<exists>coefs. length coefs = length (terms s) \<and>
     mu b' = Some (foldl Add (Const (Scalar 0)) (map2 contribution (terms s) coefs)) \<and>
     (\<forall>i<length (terms s). \<forall>k rows.
        \<not> t_random (terms s ! i) \<and> t_data (terms s ! i) = Mat k rows \<longrightarrow>
        (\<exists>mi mi'.
           build_dist rt (noncentered s) (t_name (terms s ! i)) (t_prior_name (terms s ! i))
             ((''shape'', IntLit (int k)) # t_prior_args (terms s ! i)) mi = Inr (coefs ! i, mi')) \<and>
        contribution (terms s ! i) (coefs ! i) = NewAxis (Dot (Const (Mat k rows)) (coefs ! i)) \<and>
        (\<forall>env c.
           eval env (coefs ! i) = Inr (Vec c) \<and> length c = k \<and> (\<forall>r\<in>set rows. length r = k) \<longrightarrow>
           eval env (contribution (terms s ! i) (coefs ! i))
             = Inr (Mat 1 (map (\<lambda>r. [sum (\<lambda>j. r ! j * c ! j) {..<k}]) rows)) \<and>
           shape_of (Mat 1 (map (\<lambda>r. [sum (\<lambda>j. r ! j * c ! j) {..<k}]) rows)) = [length rows, 1]))"
proof -
  from build_mu [OF assms] obtain coefs where
    len: "length coefs = length (terms s)" and
    m: "mu b' = Some (foldl Add (Const (Scalar 0)) (map2 contribution (terms s) coefs))" and
    each: "\<forall>i<length (terms s). \<exists>k mi mi'.
        shape1 (t_data (terms s ! i)) = Inr k \<and>
        build_dist rt (noncentered s) (t_name (terms s ! i)) (t_prior_name (terms s ! i))
          ((''shape'', IntLit (int k)) # t_prior_args (terms s ! i)) mi = Inr (coefs ! i, mi')"
    by blast
  have t: "(\<exists>mi mi'.
           build_dist rt (noncentered s) (t_name (terms s ! i)) (t_prior_name (terms s ! i))
             ((''shape'', IntLit (int k)) # t_prior_args (terms s ! i)) mi = Inr (coefs ! i, mi')) \<and>
        contribution (terms s ! i) (coefs ! i) = NewAxis (Dot (Const (Mat k rows)) (coefs ! i)) \<and>
        (\<forall>env c.
           eval env (coefs ! i) = Inr (Vec c) \<and> length c = k \<and> (\<forall>r\<in>set rows. length r = k) \<longrightarrow>
           eval env (contribution (terms s ! i) (coefs ! i))
             = Inr (Mat 1 (map (\<lambda>r. [sum (\<lambda>j. r ! j * c ! j) {..<k}]) rows)) \<and>
           shape_of (Mat 1 (map (\<lambda>r. [sum (\<lambda>j. r ! j * c ! j) {..<k}]) rows)) = [length rows, 1])"
    if i: "i < length (terms s)" and f: "\<not> t_random (terms s ! i)"
       and d: "t_data (terms s ! i) = Mat k rows" for i k rows
  proof -
    from each i obtain k' mi mi' where
      k': "shape1 (t_data (terms s ! i)) = Inr k'" and
      bd: "build_dist rt (noncentered s) (t_name (terms s ! i)) (t_prior_name (terms s ! i))
          ((''shape'', IntLit (int k')) # t_prior_args (terms s ! i)) mi = Inr (coefs ! i, mi')"
      by blast
    from k' d have "k' = k" by (simp add: shape1_def)
    with bd have 1: "\<exists>mi mi'.
           build_dist rt (noncentered s) (t_name (terms s ! i)) (t_prior_name (terms s ! i))
             ((''shape'', IntLit (int k)) # t_prior_args (terms s ! i)) mi = Inr (coefs ! i, mi')"
      by blast
    have 2: "contribution (terms s ! i) (coefs ! i) = NewAxis (Dot (Const (Mat k rows)) (coefs ! i))"
      using f d by (simp add: contribution_def)
    have 3: "eval env (contribution (terms s ! i) (coefs ! i))
             = Inr (Mat 1 (map (\<lambda>r. [sum (\<lambda>j. r ! j * c ! j) {..<k}]) rows))"
      if "eval env (coefs ! i) = Inr (Vec c)" "length c = k" "\<forall>r\<in>set rows. length r = k"
      for env c
    proof -
      have "map (\<lambda>r. [inner r c]) rows = map (\<lambda>r. [sum (\<lambda>j. r ! j * c ! j) {..<k}]) rows"
        using that(2,3) by (intro map_cong refl) (simp add: inner_sum)
      with eval_fixed [OF that(1,2), of rows] show ?thesis unfolding 2 by simp
    qed
    from 1 2 3 show ?thesis by (simp del: build_dist.simps eval.simps)
  qed
  from len m t show ?thesis by (simp del: build_dist.simps eval.simps) blast
qed

theorem fixed_effect_contribution_witness:
  "\<exists>b' coefs.
     build sample_rt init_backend sample_spec True = Inr b' \<and>
     length coefs = 2 \<and>
     mu b' = Some (foldl Add (Const (Scalar 0)) (map2 contribution (terms sample_spec) coefs)) \<and>
     coefs ! 0 = DistRV ''x'' (PmAttr ''Normal'')
                   [(''shape'', IntLit 2), (''mu'', IntLit 0), (''sigma'', IntLit 1)] \<and>
     eval [''x'' \<mapsto> Vec [1, 10]] (contribution (terms sample_spec ! 0) (coefs ! 0))
       = Inr (Mat 1 [[21], [43], [65]])"
proof -
  let ?env = "[''x'' \<mapsto> Vec [1, 10]]"
  let ?x = "DistRV ''x'' (PmAttr ''Normal'')
              [(''shape'', IntLit 2), (''mu'', IntLit 0), (''sigma'', IntLit 1)]"
  have "\<exists>b'. build sample_rt init_backend sample_spec True = Inr b'"
    by (simp add: build_def add_term_def term_kwargs_def shape1_def contribution_def
          response_args_def links_def reset_def init_backend_def sample_defs builder_defs)
  then obtain b' where b: "build sample_rt init_backend sample_spec True = Inr b'" by blast
  from fixed_effect_contribution [OF b] obtain coefs where
    len: "length coefs = length (terms sample_spec)" and
    m: "mu b' = Some (foldl Add (Const (Scalar 0)) (map2 contribution (terms sample_spec) coefs))" and
    each: "\<forall>i<length (terms sample_spec). \<forall>k rows.
        \<not> t_random (terms sample_spec ! i) \<and> t_data (terms sample_spec ! i) = Mat k rows \<longrightarrow>
        (\<exists>mi mi'.
           build_dist sample_rt (noncentered sample_spec) (t_name (terms sample_spec ! i))
             (t_prior_name (terms sample_spec ! i))
             ((''shape'', IntLit (int k)) # t_prior_args (terms sample_spec ! i)) mi
             = Inr (coefs ! i, mi')) \<and>
        contribution (terms sample_spec ! i) (coefs ! i)
          = NewAxis (Dot (Const (Mat k rows)) (coefs ! i)) \<and>
        (\<forall>env c.
           eval env (coefs ! i) = Inr (Vec c) \<and> length c = k \<and> (\<forall>r\<in>set rows. length r = k) \<longrightarrow>
           eval env (contribution (terms sample_spec ! i) (coefs ! i))
             = Inr (Mat 1 (map (\<lambda>r. [sum (\<lambda>j. r ! j * c ! j) {..<k}]) rows)) \<and>
           shape_of (Mat 1 (map (\<lambda>r. [sum (\<lambda>j. r ! j * c ! j) {..<k}]) rows)) = [length rows, 1])"
    by blast
  have t0: "terms sample_spec ! 0 = sample_fixed_term" "length (terms sample_spec) = 2"
    by (simp_all add: sample_spec_def)
  note e0 = each [rule_format, of 0 2 "[[1, 2], [3, 4], [5, 6]]", unfolded t0]
  have p: "\<not> t_random sample_fixed_term \<and> t_data sample_fixed_term = Mat 2 [[1, 2], [3, 4], [5, 6]]"
    by (simp add: sample_fixed_term_def)
  from e0 p obtain mi mi' where
    "build_dist sample_rt (noncentered sample_spec) (t_name sample_fixed_term)
             (t_prior_name sample_fixed_term)
             ((''shape'', IntLit (int 2)) # t_prior_args sample_fixed_term) mi
             = Inr (coefs ! 0, mi')"
    by (auto simp del: build_dist.simps eval.simps)
  then have c0: "coefs ! 0 = ?x"
    by (auto simp: sample_defs builder_defs)
  have ex: "eval ?env (coefs ! 0) = Inr (Vec [1, 10])" unfolding c0 by simp
  from e0 p ex have "eval ?env (contribution sample_fixed_term (coefs ! 0))
             = Inr (Mat 1 (map (\<lambda>r. [sum (\<lambda>j. r ! j * [1, 10] ! j) {..<2}]) [[1, 2], [3, 4], [5, 6]]))"
    by (auto simp del: build_dist.simps eval.simps)
  then have r: "eval ?env (contribution (terms sample_spec ! 0) (coefs ! 0))
                  = Inr (Mat 1 [[21], [43], [65]])"
    unfolding t0 by (simp add: numeral_2_eq_2 del: eval.simps)
  from len t0 have l2: "length coefs = 2" by simp
  show ?thesis by (intro exI [of _ b'] exI [of _ coefs] conjI b l2 m c0 r)
qed

lemma build_keeps_results:
  "build rt b s r = Inr b' \<Longrightarrow> trace b' = trace b \<and> advi_params b' = advi_params b"
  by (auto simp: build_def reset_def Let_def split: sum.splits if_splits)

text \<open>
  Claim C10. \<open>reset\<close> replaces the model, the predictor and the parameter groups, and
  nothing else: the specification, the trace and the variational parameters are the ones
  the back-end had. A build, with or without its reset, keeps the trace and the
  variational parameters as well.
\<close>

theorem reset_frame:
  "model (reset b) = [] \<and> mu (reset b) = None \<and> par_groups (reset b) = [] \<and>
   spec (reset b) = spec b \<and> trace (reset b) = trace b \<and> advi_params (reset b) = advi_params b \<and>
   reset b = b\<lparr>model := [], mu := None, par_groups := []\<rparr> \<and>
   (\<forall>b'. build rt (reset b) s False = Inr b' \<longrightarrow>
      trace b' = trace b \<and> advi_params b' = advi_params b) \<and>
   (\<forall>b'. build rt b s True = Inr b' \<longrightarrow>
      trace b' = trace b \<and> advi_params b' = advi_params b)"
  by (auto simp: build_def reset_def Let_def split: sum.splits if_splits)

theorem reset_frame_witness:
  "trace (reset (init_backend\<lparr>trace := Some (PmSample [] (IntLit 1000) None ''auto'' 50000 []),
                              advi_params := Some (ADVI [] None [])\<rparr>))
     = Some (PmSample [] (IntLit 1000) None ''auto'' 50000 []) \<and>
   advi_params (reset (init_backend\<lparr>trace := Some (PmSample [] (IntLit 1000) None ''auto'' 50000 []),
                              advi_params := Some (ADVI [] None [])\<rparr>))
     = Some (ADVI [] None []) \<and>
   (\<exists>b'. build sample_rt
            (init_backend\<lparr>trace := Some (PmSample [] (IntLit 1000) None ''auto'' 50000 []),
                          advi_params := Some (ADVI [] None [])\<rparr>) sample_spec True = Inr b' \<and>
         trace b' = Some (PmSample [] (IntLit 1000) None ''auto'' 50000 []) \<and>
         advi_params b' = Some (ADVI [] None []))"
proof -
  let ?b = "init_backend\<lparr>trace := Some (PmSample [] (IntLit 1000) None ''auto'' 50000 []),
                              advi_params := Some (ADVI [] None [])\<rparr>"
  have "\<exists>b'. build sample_rt ?b sample_spec True = Inr b'"
    by (simp add: build_def add_term_def term_kwargs_def shape1_def contribution_def
          response_args_def links_def reset_def init_backend_def sample_defs builder_defs)
  then obtain b' where b: "build sample_rt ?b sample_spec True = Inr b'" by blast
  note f = reset_frame [where b = ?b and rt = sample_rt and s = sample_spec]
  from f b have "trace b' = trace ?b" "advi_params b' = advi_params ?b" by blast+
  moreover from f have "trace (reset ?b) = trace ?b" "advi_params (reset ?b) = advi_params ?b"
    by blast+
  ultimately show ?thesis using b by (simp add: init_backend_def)
qed

section \<open>Properties of the inference runner\<close>

text \<open>
  Claim C7. \<open>run\<close> compares the lower-cased method with the three names. On
  \<open>mcmc\<close> it stores the trace and returns the inference data made from it, on \<open>advi\<close> it
  stores and returns the variational object, on \<open>laplace\<close> it returns what \<open>_laplace\<close>
  returns or raises. For every other method it returns \<open>None\<close>, raises nothing and leaves
  the back-end as it was. Two methods with the same lower-cased form give the same run.
\<close>

theorem run_method_dispatch:
  "(lower mth = ''mcmc'' \<longrightarrow>
      (\<exists>tr. run rt b start mth init n_init kwargs
               = Inr (FromPymc3 tr (model b), b\<lparr>trace := Some tr\<rparr>))) \<and>
   (lower mth = ''advi'' \<longrightarrow>
      (\<exists>a. run rt b start mth init n_init kwargs
               = Inr (AdviResult a, b\<lparr>advi_params := Some a\<rparr>))) \<and>
   (lower mth = ''laplace'' \<longrightarrow>
      run rt b start mth init n_init kwargs =
        (case laplace rt (model b) of Inl e \<Rightarrow> Inl e | Inr d \<Rightarrow> Inr (LaplaceResult d, b))) \<and>
   (lower mth \<notin> {''mcmc'', ''advi'', ''laplace''} \<longrightarrow>
      run rt b start mth init n_init kwargs = Inr (PyNone, b)) \<and>
   (lower mth = lower mth' \<longrightarrow>
      run rt b start mth init n_init kwargs = run rt b start mth' init n_init kwargs)"
  by (simp add: run_def Let_def)

theorem run_method_dispatch_witness:
  "lower ''MCMC'' = ''mcmc'' \<and>
   run (fixed_lrt [] [] [] []) init_backend None ''MCMC'' ''auto'' 50000
       [(''samples'', IntLit 200), (''chains'', IntLit 2)]
     = Inr (FromPymc3 (PmSample [] (IntLit 200) None ''auto'' 50000 [(''chains'', IntLit 2)]) [],
            init_backend\<lparr>trace :=
              Some (PmSample [] (IntLit 200) None ''auto'' 50000 [(''chains'', IntLit 2)])\<rparr>) \<and>
   lower ''Advi'' = ''advi'' \<and>
   run (fixed_lrt [] [] [] []) init_backend None ''Advi'' ''auto'' 50000 []
     = Inr (AdviResult (ADVI [] None []), init_backend\<lparr>advi_params := Some (ADVI [] None [])\<rparr>) \<and>
   lower ''Laplace'' = ''laplace'' \<and>
   run (fixed_lrt [] [] [] []) init_backend None ''Laplace'' ''auto'' 50000 []
     = Inr (LaplaceResult [], init_backend) \<and>
   lower ''NUTS'' = ''nuts'' \<and>
   run (fixed_lrt [] [] [] []) init_backend None ''NUTS'' ''auto'' 50000 [] = Inr (PyNone, init_backend) \<and>
   lower ''mcmc '' = ''mcmc '' \<and>
   run (fixed_lrt [] [] [] []) init_backend None ''mcmc '' ''auto'' 50000 [] = Inr (PyNone, init_backend)"
proof -
  have l: "lower ''MCMC'' = ''mcmc''" "lower ''Advi'' = ''advi''" "lower ''Laplace'' = ''laplace''"
    "lower ''NUTS'' = ''nuts''" "lower ''mcmc '' = ''mcmc ''"
    by (simp_all add: lower_def lower_char_def)
  have lap: "laplace (fixed_lrt [] [] [] []) (model init_backend) = Inr []"
    by (simp add: laplace_def fixed_lrt_def)
  note d = run_method_dispatch [where rt = "fixed_lrt [] [] [] []" and b = init_backend
             and start = None and init = "''auto''" and n_init = 50000]
  from d [where mth = "''MCMC''" and kwargs = "[(''samples'', IntLit 200), (''chains'', IntLit 2)]"] l(1)
  have 1: "run (fixed_lrt [] [] [] []) init_backend None ''MCMC'' ''auto'' 50000
       [(''samples'', IntLit 200), (''chains'', IntLit 2)]
     = Inr (FromPymc3 (PmSample [] (IntLit 200) None ''auto'' 50000 [(''chains'', IntLit 2)]) [],
            init_backend\<lparr>trace :=
              Some (PmSample [] (IntLit 200) None ''auto'' 50000 [(''chains'', IntLit 2)])\<rparr>)"
    by (simp add: run_def init_backend_def AList.delete_eq Let_def)
  from d [where mth = "''Advi''" and kwargs = "[]"] l(2)
  have 2: "run (fixed_lrt [] [] [] []) init_backend None ''Advi'' ''auto'' 50000 []
     = Inr (AdviResult (ADVI [] None []), init_backend\<lparr>advi_params := Some (ADVI [] None [])\<rparr>)"
    by (simp add: run_def init_backend_def Let_def)
  from d [where mth = "''Laplace''" and kwargs = "[]"] l(3) lap
  have 3: "run (fixed_lrt [] [] [] []) init_backend None ''Laplace'' ''auto'' 50000 []
     = Inr (LaplaceResult [], init_backend)"
    by simp
  from d [where mth = "''NUTS''" and kwargs = "[]"] l(4)
  have 4: "run (fixed_lrt [] [] [] []) init_backend None ''NUTS'' ''auto'' 50000 [] = Inr (PyNone, init_backend)"
    by simp
  from d [where mth = "''mcmc ''" and kwargs = "[]"] l(5)
  have 5: "run (fixed_lrt [] [] [] []) init_backend None ''mcmc '' ''auto'' 50000 [] = Inr (PyNone, init_backend)"
    by simp
  from l 1 2 3 4 5 show ?thesis by simp
qed

text \<open>
  Claim C3. \<open>_laplace\<close> raises the \<open>LinAlgError\<close> with the message
  \<open>Singular matrix. Use mcmc or advi method\<close> exactly when the determinant of the Hessian
  at the MAP point is zero; it returns a result only when that determinant is not zero,
  and \<open>run\<close> passes the error on unchanged.
\<close>

theorem laplace_singular:
  "(laplace rt m = Inl (LinAlgError ''Singular matrix. Use mcmc or advi method'')) =
     (det rt (find_hessian rt
        (find_MAP rt m (filter (\<lambda>n. \<not> is_transformed_name rt n) (unobserved_RVs rt m)))
        (filter (\<lambda>n. \<not> is_transformed_name rt n) (unobserved_RVs rt m))) = 0) \<and>
   ((\<exists>d. laplace rt m = Inr d) \<longrightarrow>
     det rt (find_hessian rt
        (find_MAP rt m (filter (\<lambda>n. \<not> is_transformed_name rt n) (unobserved_RVs rt m)))
        (filter (\<lambda>n. \<not> is_transformed_name rt n) (unobserved_RVs rt m))) \<noteq> 0) \<and>
   (laplace rt m = Inl (LinAlgError ''Singular matrix. Use mcmc or advi method'') \<longrightarrow>
      run rt (b\<lparr>model := m\<rparr>) start ''laplace'' init n_init kwargs =
        Inl (LinAlgError ''Singular matrix. Use mcmc or advi method''))"
proof -
  have ne: "np_reshape xs sh \<noteq> Inl (LinAlgError s)" for xs sh s
    by (simp add: np_reshape_def)
  have r: "reshape_stds i shapes stds \<noteq> Inl (LinAlgError s)" for i shapes stds s
  proof (induction shapes arbitrary: i)
    case Nil
    show ?case by simp
  next
    case (Cons sh shapes)
    show ?case using ne [of _ sh s] Cons [of "i + sum_list sh"]
      by (auto simp: Let_def split: sum.splits)
  qed
  show ?thesis
    using r
    by (auto simp: laplace_def run_def Let_def singular_msg_def lower_def lower_char_def
             split: sum.splits)
qed

theorem laplace_singular_witness:
  "laplace (fixed_lrt [''a'', ''b''] [(''a'', \<lparr>nd_shape = [], nd_data = [0]\<rparr>), (''b'', \<lparr>nd_shape = [], nd_data = [0]\<rparr>)]
       [[1, 2], [2, 4]] [1, 1]) [] = Inl (LinAlgError ''Singular matrix. Use mcmc or advi method'') \<and>
   det_rows [[1, 2], [2, 4]] = 0 \<and>
   laplace (fixed_lrt [''a'', ''b''] [(''a'', \<lparr>nd_shape = [], nd_data = [3]\<rparr>), (''b'', \<lparr>nd_shape = [], nd_data = [5]\<rparr>)]
       [[4, 0], [0, 16]] [1 / 2, 1 / 4]) [] =
     Inr [(''a'', Item 3, \<lparr>nd_shape = [1], nd_data = [1 / 2]\<rparr>),
          (''b'', Item 5, \<lparr>nd_shape = [1], nd_data = [1 / 4]\<rparr>)] \<and>
   det_rows [[4, 0], [0, 16]] = 64"
proof -
  have d1: "det_rows [[1, 2], [2, 4]] = 0" by (simp add: del_nth_def)
  have d2: "det_rows [[4, 0], [0, 16]] = 64" by (simp add: del_nth_def)
  have l2: "laplace (fixed_lrt [''a'', ''b''] [(''a'', \<lparr>nd_shape = [], nd_data = [3]\<rparr>), (''b'', \<lparr>nd_shape = [], nd_data = [5]\<rparr>)]
       [[4, 0], [0, 16]] [1 / 2, 1 / 4]) [] =
     Inr [(''a'', Item 3, \<lparr>nd_shape = [1], nd_data = [1 / 2]\<rparr>),
          (''b'', Item 5, \<lparr>nd_shape = [1], nd_data = [1 / 4]\<rparr>)]"
    by (simp add: laplace_def fixed_lrt_def transformed_name_def del_nth_def Let_def mode_of_def nd_size_def
          np_reshape_def py_slice_def)
  show ?thesis
    using laplace_singular [where rt = "fixed_lrt [''a'', ''b''] [(''a'', \<lparr>nd_shape = [], nd_data = [0]\<rparr>), (''b'', \<lparr>nd_shape = [], nd_data = [0]\<rparr>)]
       [[1, 2], [2, 4]] [1, 1]" and m = "[]"] d1 d2 l2
    by (simp add: fixed_lrt_def del_nth_def)
qed

text \<open>
  Where every shape has as many elements as the sum of its dimensions (every scalar and
  every one-dimensional variable), and the standard deviations suffice, the loop of
  \<open>_laplace\<close> computes the walk of the specification.
\<close>

lemma reshape_stds_agrees:
  assumes "\<forall>sh\<in>set shapes. sum_list sh = prod_list sh"
      and "off + sum_list (map prod_list shapes) \<le> length stds"
  shows "reshape_stds off shapes stds = Inr (spec_walk off shapes stds)"
  using assms
proof (induction shapes arbitrary: off)
  case Nil
  show ?case by simp
next
  case (Cons sh shapes)
  have s: "sum_list sh = prod_list sh" using Cons.prems(1) by simp
  have l: "off + prod_list sh \<le> length stds" using Cons.prems(2) by simp
  have sl: "py_slice stds off (off + prod_list sh) = take (prod_list sh) (drop off stds)"
    by (simp add: py_slice_def drop_take)
  have len: "length (take (prod_list sh) (drop off stds)) = prod_list sh"
    using l by simp
  have ih: "reshape_stds (off + prod_list sh) shapes stds
              = Inr (spec_walk (off + prod_list sh) shapes stds)"
    using Cons.prems by (intro Cons.IH) (simp_all add: add.assoc)
  show ?case
    by (simp add: Let_def s sl np_reshape_def len ih del: length_take)
qed

text \<open>
  Claim C2. The loop advances by \<open>sum(shape)\<close>, not by the number of elements. For a
  variable of shape \<open>(2, 3)\<close> it takes a slice of five of the six standard deviations and
  the reshape raises \<open>ValueError\<close>, where the walk of the specification yields the
  \<open>2 \<times> 3\<close> array. For a variable of shape \<open>(1, 2)\<close> followed by a scalar, the first
  slice holds three elements, and \<open>_laplace\<close> raises as well.
\<close>

theorem laplace_walk_matrix_variable:
  "reshape_stds 0 [[2, 3]] [1, 2, 3, 4, 5, 6] = Inl (ValueError ''cannot reshape array'') \<and>
   py_slice [1, 2, 3, 4, 5, 6 :: real] 0 (0 + sum_list [2, 3]) = [1, 2, 3, 4, 5] \<and>
   spec_walk 0 [[2, 3]] [1, 2, 3, 4, 5, 6]
     = [\<lparr>nd_shape = [2, 3], nd_data = [1, 2, 3, 4, 5, 6]\<rparr>] \<and>
   laplace (fixed_lrt [''x'', ''y'']
              [(''x'', \<lparr>nd_shape = [1, 2], nd_data = [0, 0]\<rparr>), (''y'', \<lparr>nd_shape = [], nd_data = [0]\<rparr>)]
              [[1, 0, 0], [0, 1, 0], [0, 0, 1]] [7, 8, 9]) []
     = Inl (ValueError ''cannot reshape array'') \<and>
   spec_walk 0 [[1, 2], [1]] [7, 8, 9]
     = [\<lparr>nd_shape = [1, 2], nd_data = [7, 8]\<rparr>, \<lparr>nd_shape = [1], nd_data = [9]\<rparr>]"
  by (simp add: laplace_def fixed_lrt_def transformed_name_def del_nth_def Let_def mode_of_def
        nd_size_def np_reshape_def py_slice_def)

end
